theory Spec2Isabelle
  imports Main "HOL-Library.AList" "HOL-Library.Char_ord" "HOL-Library.List_Lexorder"
begin

section \<open>Values, exceptions and the store\<close>

text \<open>
  The handlers of \<^verbatim>\<open>c_triphistory.py\<close> work on the loose, dict-shaped values that
  the Realtime Database client returns: \<^verbatim>\<open>None\<close>, strings and dicts. A trip is such a
  dict; its \<^verbatim>\<open>status\<close> child is a dict again. Numbers, booleans and arrays do not occur
  in the data model and are left out.
\<close>

datatype json = JNull | JStr string | JObj "(string \<times> json) list"

text \<open>Python truthiness (\<^verbatim>\<open>if not x\<close>): \<^verbatim>\<open>None\<close>, \<^verbatim>\<open>''\<close> and \<^verbatim>\<open>{}\<close> are false.\<close>

fun truthy :: "json \<Rightarrow> bool" where
  "truthy JNull = False"
| "truthy (JStr s) = (s \<noteq> [])"
| "truthy (JObj kvs) = (kvs \<noteq> [])"

text \<open>
  Exceptions are values. \<open>Interp p e\<close> is the f-string \<^verbatim>\<open>f"{p}{str(e)}"\<close>: the text of
  the inner exception is kept as the exception itself.
\<close>

datatype exn = HTTPException nat detail | ValueError | AttributeError | TypeError
  and detail = Text string | Interp string exn

fun status_code :: "exn \<Rightarrow> nat" where
  "status_code (HTTPException c d) = c"
| "status_code ValueError = 500"
| "status_code AttributeError = 500"
| "status_code TypeError = 500"

text \<open>\<^verbatim>\<open>isinstance(x, dict)\<close>\<close>

fun is_dict :: "json \<Rightarrow> bool" where
  "is_dict (JObj kvs) = True"
| "is_dict (JStr s) = False"
| "is_dict JNull = False"

text \<open>\<^verbatim>\<open>d.get(k, dflt)\<close>: only a dict has \<^verbatim>\<open>get\<close>.\<close>

fun py_get :: "json \<Rightarrow> string \<Rightarrow> json \<Rightarrow> exn + json" where
  "py_get (JObj kvs) k dflt = Inr (case map_of kvs k of None \<Rightarrow> dflt | Some v \<Rightarrow> v)"
| "py_get (JStr s) k dflt = Inl AttributeError"
| "py_get JNull k dflt = Inl AttributeError"

text \<open>\<^verbatim>\<open>trip_data.get('status', {}).get(k, dflt)\<close>\<close>

definition status_get :: "json \<Rightarrow> string \<Rightarrow> json \<Rightarrow> exn + json" where
  "status_get trip_data k dflt =
     (case py_get trip_data ''status'' (JObj []) of
        Inl e \<Rightarrow> Inl e
      | Inr st \<Rightarrow> py_get st k dflt)"

text \<open>\<^verbatim>\<open>dict(x)\<close> on what the client returned.\<close>

fun py_dict :: "json \<Rightarrow> exn + json" where
  "py_dict (JObj kvs) = Inr (JObj kvs)"
| "py_dict (JStr s) = Inl ValueError"
| "py_dict JNull = Inl TypeError"

fun children :: "json \<Rightarrow> (string \<times> json) list" where
  "children (JObj kvs) = kvs"
| "children (JStr s) = []"
| "children JNull = []"

definition child :: "json \<Rightarrow> string \<Rightarrow> json" where
  "child v k = (case map_of (children v) k of None \<Rightarrow> JNull | Some x \<Rightarrow> x)"

subsection \<open>The store\<close>

text \<open>
  The store is the node \<^verbatim>\<open>/trips\<close> of the database: the trips by booking id, in the
  store's order. A booking id is one path segment. Every request sent to the database
  is recorded in \<open>calls\<close>, every \<^verbatim>\<open>print\<close> in \<open>printed\<close>.
\<close>

datatype call =
    Get_call "string list"
  | Query_call "string list" string string
  | Update_call "string list" "(string \<times> json) list"
  | Delete_call "string list"

datatype line = Invalid_date_format string json exn | Error_in string exn

record world =
  trips :: "(string \<times> json) list"
  calls :: "call list"
  printed :: "line list"

text \<open>\<^verbatim>\<open>db.reference(f'/trips/{k}').get()\<close>\<close>

definition ref_get :: "string \<Rightarrow> world \<Rightarrow> json \<times> world" where
  "ref_get k w =
     (case map_of (trips w) k of None \<Rightarrow> JNull | Some v \<Rightarrow> v,
      w\<lparr>calls := calls w @ [Get_call [''trips'', k]]\<rparr>)"

text \<open>
  \<^verbatim>\<open>trips_ref.order_by_child(c).equal_to(v).get()\<close>: the children of \<^verbatim>\<open>/trips\<close>
  whose child \<open>c\<close> is the string \<open>v\<close>. The client sorts what the server sends by
  the indexed value and then by key; the values are all \<open>v\<close> here, so the matches come
  in the order of their keys, compared as Python compares strings.
\<close>

definition query_equal_to :: "string \<Rightarrow> string \<Rightarrow> world \<Rightarrow> (string \<times> json) list \<times> world" where
  "query_equal_to c v w =
     (sort_key fst (filter (\<lambda>(k, t). child t c = JStr v) (trips w)),
      w\<lparr>calls := calls w @ [Query_call [''trips''] c v]\<rparr>)"

text \<open>
  A partial update writes the given children and keeps the others; a node that was a
  leaf or absent becomes a dict on the way.
\<close>

fun merge_children :: "(string \<times> json) list \<Rightarrow> (string \<times> json) list \<Rightarrow> (string \<times> json) list" where
  "merge_children kvs [] = kvs"
| "merge_children kvs ((k, v) # new) = merge_children (AList.update k v kvs) new"

fun patch_at :: "string list \<Rightarrow> (string \<times> json) list \<Rightarrow> json \<Rightarrow> json" where
  "patch_at [] new v = JObj (merge_children (children v) new)"
| "patch_at (k # ks) new v = JObj (AList.update k (patch_at ks new (child v k)) (children v))"

text \<open>
  \<^verbatim>\<open>Reference.update(value)\<close> of the client library, on the reference at \<open>path\<close> below
  \<^verbatim>\<open>/trips\<close>: it raises \<^verbatim>\<open>ValueError\<close> before any request unless \<open>value\<close> is a
  non-empty dict. \<open>Items\<close> is a Python list of key-value tuples.
\<close>

datatype pyvalue = Dict "(string \<times> json) list" | Items "(string \<times> json) list"

fun ref_update :: "string list \<Rightarrow> pyvalue \<Rightarrow> world \<Rightarrow> exn + world" where
  "ref_update path (Items kvs) w = Inl ValueError"
| "ref_update path (Dict kvs) w =
     (if kvs = [] then Inl ValueError
      else Inr (w\<lparr>trips := children (patch_at path kvs (JObj (trips w))),
                  calls := calls w @ [Update_call (''trips'' # path) kvs]\<rparr>))"

text \<open>\<^verbatim>\<open>db.reference(f'/trips/{k}').delete()\<close>\<close>

definition ref_delete :: "string \<Rightarrow> world \<Rightarrow> world" where
  "ref_delete k w =
     w\<lparr>trips := AList.delete k (trips w), calls := calls w @ [Delete_call [''trips'', k]]\<rparr>"

section \<open>The authorization check\<close>

definition startswith :: "string \<Rightarrow> string \<Rightarrow> bool" where
  "startswith s p = (take (length p) s = p)"

text \<open>\<^verbatim>\<open>not authorization or not authorization.startswith("Bearer ")\<close>, negated.\<close>

definition authorized :: "string option \<Rightarrow> bool" where
  "authorized authorization =
     (case authorization of
        None \<Rightarrow> False
      | Some h \<Rightarrow> h \<noteq> [] \<and> startswith h ''Bearer '')"

definition unauthorized :: exn where
  "unauthorized = HTTPException 401 (Text ''Invalid or missing authorization header'')"

datatype reply = Message string

section \<open>delete\_trip and edit\_trip\<close>

definition delete_trip_body :: "string \<Rightarrow> world \<Rightarrow> (exn + reply) \<times> world" where
  "delete_trip_body trip_id w =
     (let (trip_data, w1) = ref_get trip_id w in
      if \<not> truthy trip_data then (Inl (HTTPException 404 (Text ''Trip not found'')), w1)
      else case status_get trip_data ''status'' JNull of
             Inl e \<Rightarrow> (Inl e, w1)
           | Inr s \<Rightarrow>
               if s \<noteq> JStr ''pending''
               then (Inl (HTTPException 400 (Text ''Can only delete pending trips'')), w1)
               else (Inr (Message ''Trip deleted successfully''), ref_delete trip_id w1))"

definition delete_trip :: "string \<Rightarrow> string option \<Rightarrow> world \<Rightarrow> (exn + reply) \<times> world" where
  "delete_trip trip_id authorization w =
     (if \<not> authorized authorization then (Inl unauthorized, w)
      else case delete_trip_body trip_id w of
             (Inl e, w1) \<Rightarrow>
               (Inl (HTTPException 500 (Interp ''Failed to delete trip: '' e)),
                w1\<lparr>printed := printed w1 @ [Error_in ''/delete-trip'' e]\<rparr>)
           | (Inr m, w1) \<Rightarrow> (Inr m, w1))"

record trip_update =
  tu_from_location :: string
  tu_to_location :: string
  tu_date :: string

definition edit_trip_body :: "string \<Rightarrow> string \<Rightarrow> trip_update \<Rightarrow> world \<Rightarrow> (exn + reply) \<times> world" where
  "edit_trip_body now_ist trip_id update_data w =
     (let (trip_data, w1) = ref_get trip_id w in
      if \<not> truthy trip_data then (Inl (HTTPException 404 (Text ''Trip not found'')), w1)
      else case status_get trip_data ''status'' JNull of
             Inl e \<Rightarrow> (Inl e, w1)
           | Inr s \<Rightarrow>
               if s \<noteq> JStr ''pending''
               then (Inl (HTTPException 400 (Text ''Can only edit pending trips'')), w1)
               else (case ref_update [trip_id]
                            (Dict [(''from_location'', JStr (tu_from_location update_data)),
                                   (''to_location'', JStr (tu_to_location update_data)),
                                   (''date'', JStr (tu_date update_data)),
                                   (''updated_at'', JStr now_ist)]) w1 of
                       Inl e \<Rightarrow> (Inl e, w1)
                     | Inr w2 \<Rightarrow> (Inr (Message ''Trip updated successfully''), w2)))"

definition edit_trip ::
  "string \<Rightarrow> string \<Rightarrow> trip_update \<Rightarrow> string option \<Rightarrow> world \<Rightarrow> (exn + reply) \<times> world" where
  "edit_trip now_ist trip_id update_data authorization w =
     (if \<not> authorized authorization then (Inl unauthorized, w)
      else case edit_trip_body now_ist trip_id update_data w of
             (Inl e, w1) \<Rightarrow>
               (Inl (HTTPException 500 (Interp ''Failed to update trip: '' e)),
                w1\<lparr>printed := printed w1 @ [Error_in ''/edit-trip'' e]\<rparr>)
           | (Inr m, w1) \<Rightarrow> (Inr m, w1))"

section \<open>update\_trip\_status\<close>

text \<open>\<^verbatim>\<open>all([...])\<close> on the optional query parameters: \<^verbatim>\<open>None\<close> and \<^verbatim>\<open>''\<close> are false.\<close>

definition all_truthy :: "string option list \<Rightarrow> bool" where
  "all_truthy xs = list_all (\<lambda>x. case x of None \<Rightarrow> False | Some s \<Rightarrow> s \<noteq> []) xs"

fun opt_json :: "string option \<Rightarrow> json" where
  "opt_json None = JNull"
| "opt_json (Some s) = JStr s"

text \<open>The dict \<^verbatim>\<open>status_update\<close> as it stands before the write (\<^verbatim>\<open>dict.update\<close> merges).\<close>

definition status_update ::
  "string \<Rightarrow> string \<Rightarrow> string option \<Rightarrow> string option \<Rightarrow> string option \<Rightarrow> string option
     \<Rightarrow> exn + (string \<times> json) list" where
  "status_update now_ist status driver_email driver_name driver_phone vehicle_number =
     (let base = [(''status'', JStr status), (''updated_at'', JStr now_ist)] in
      if status = ''driver_assigned'' then
        if \<not> all_truthy [driver_email, driver_name, driver_phone, vehicle_number]
        then Inl (HTTPException 400 (Text ''Driver details required for assignment''))
        else Inr (merge_children base
                    [(''driver_email'', opt_json driver_email),
                     (''driver_name'', opt_json driver_name),
                     (''driver_phone'', opt_json driver_phone),
                     (''vehicle_number'', opt_json vehicle_number),
                     (''assigned_at'', JStr now_ist)])
      else if status = ''trip_completed''
      then Inr (merge_children base [(''completed_at'', JStr now_ist)])
      else Inr base)"

text \<open>
  The write goes to the reference of the trip itself, \<^verbatim>\<open>trip_ref.update(...)\<close>, and
  its argument is the list of tuples \<^verbatim>\<open>status_update_list\<close>.
\<close>

definition update_trip_status_body ::
  "string \<Rightarrow> string \<Rightarrow> string \<Rightarrow> string option \<Rightarrow> string option \<Rightarrow> string option
     \<Rightarrow> string option \<Rightarrow> world \<Rightarrow> (exn + reply) \<times> world" where
  "update_trip_status_body now_ist booking_id status driver_email driver_name driver_phone
       vehicle_number w =
     (let (trip_data, w1) = ref_get booking_id w in
      if \<not> truthy trip_data then (Inl (HTTPException 404 (Text ''Trip not found'')), w1)
      else case py_dict trip_data of
             Inl e \<Rightarrow> (Inl e, w1)
           | Inr trip_data_dict \<Rightarrow>
               (case status_update now_ist status driver_email driver_name driver_phone
                       vehicle_number of
                  Inl e \<Rightarrow> (Inl e, w1)
                | Inr su \<Rightarrow>
                    (case ref_update [booking_id] (Items su) w1 of
                       Inl e \<Rightarrow> (Inl e, w1)
                     | Inr w2 \<Rightarrow> (Inr (Message ''Trip status updated successfully''), w2))))"

definition update_trip_status ::
  "string \<Rightarrow> string \<Rightarrow> string \<Rightarrow> string option \<Rightarrow> string option \<Rightarrow> string option
     \<Rightarrow> string option \<Rightarrow> string option \<Rightarrow> world \<Rightarrow> (exn + reply) \<times> world" where
  "update_trip_status now_ist booking_id status driver_email driver_name driver_phone
       vehicle_number authorization w =
     (if \<not> authorized authorization then (Inl unauthorized, w)
      else case update_trip_status_body now_ist booking_id status driver_email driver_name
                  driver_phone vehicle_number w of
             (Inl e, w1) \<Rightarrow>
               (Inl (HTTPException 500 (Interp ''Failed to update trip status: '' e)),
                w1\<lparr>printed := printed w1 @ [Error_in ''/update-trip-status'' e]\<rparr>)
           | (Inr m, w1) \<Rightarrow> (Inr m, w1))"

section \<open>find\_nearby\_trips\<close>

record trip_summary =
  ts_booking_id :: string
  ts_customer_email :: json
  ts_from_location :: json
  ts_to_location :: json
  ts_date :: json
  ts_created_at :: json

text \<open>
  The appended dict. Its \<^verbatim>\<open>trip_data.get(k)\<close> are reached only after the status test
  has called \<^verbatim>\<open>trip_data.get\<close> without raising, so \<^verbatim>\<open>trip_data\<close> is a dict there
  and \<^verbatim>\<open>get(k)\<close> is \<open>child\<close>.
\<close>

definition summary :: "string \<Rightarrow> json \<Rightarrow> trip_summary" where
  "summary trip_id trip_data =
     \<lparr>ts_booking_id = trip_id,
      ts_customer_email = child trip_data ''customer_email'',
      ts_from_location = child trip_data ''from_location'',
      ts_to_location = child trip_data ''to_location'',
      ts_date = child trip_data ''date'',
      ts_created_at = child trip_data ''created_at''\<rparr>"

fun nearby_loop :: "(string \<times> json) list \<Rightarrow> exn + trip_summary list" where
  "nearby_loop [] = Inr []"
| "nearby_loop ((trip_id, trip_data) # rest) =
     (case status_get trip_data ''status'' JNull of
        Inl e \<Rightarrow> Inl e
      | Inr s \<Rightarrow>
          if s = JStr ''pending''
          then (case nearby_loop rest of
                  Inl e \<Rightarrow> Inl e
                | Inr rs \<Rightarrow> Inr (summary trip_id trip_data # rs))
          else nearby_loop rest)"

text \<open>
  \<^verbatim>\<open>db.reference('/trips')\<close> has no \<^verbatim>\<open>url\<close> here: it is the database of the app's
  own configuration, taken to be the one the other handlers name.
\<close>

definition find_nearby_trips_body ::
  "string \<Rightarrow> string \<Rightarrow> world \<Rightarrow> (exn + trip_summary list) \<times> world" where
  "find_nearby_trips_body from_location date w =
     (let (trips_found, w1) = query_equal_to ''date'' date w in
      if trips_found = [] then (Inr [], w1)
      else (nearby_loop trips_found, w1))"

definition find_nearby_trips ::
  "string \<Rightarrow> string \<Rightarrow> string option \<Rightarrow> world \<Rightarrow> (exn + trip_summary list) \<times> world" where
  "find_nearby_trips from_location date authorization w =
     (if \<not> authorized authorization then (Inl unauthorized, w)
      else case find_nearby_trips_body from_location date w of
             (Inl e, w1) \<Rightarrow>
               (Inl (HTTPException 500 (Interp ''Failed to find nearby trips: '' e)), w1)
           | (Inr r, w1) \<Rightarrow> (Inr r, w1))"

section \<open>Dates\<close>

text \<open>A naive \<^verbatim>\<open>datetime\<close>; \<^verbatim>\<open><\<close> compares the fields in order.\<close>

record datetime =
  dt_year :: nat
  dt_month :: nat
  dt_day :: nat
  dt_hour :: nat
  dt_minute :: nat
  dt_second :: nat
  dt_microsecond :: nat

fun lex_less :: "nat list \<Rightarrow> nat list \<Rightarrow> bool" where
  "lex_less (x # xs) (y # ys) = (x < y \<or> (x = y \<and> lex_less xs ys))"
| "lex_less xs ys = False"

definition dt_fields :: "datetime \<Rightarrow> nat list" where
  "dt_fields d =
     [dt_year d, dt_month d, dt_day d, dt_hour d, dt_minute d, dt_second d, dt_microsecond d]"

definition dt_less :: "datetime \<Rightarrow> datetime \<Rightarrow> bool" where
  "dt_less a b = lex_less (dt_fields a) (dt_fields b)"

text \<open>
  \<^verbatim>\<open>datetime.strptime(s, '%d/%m/%Y')\<close> of the standard library, on ASCII text. The
  format is the regular expression
  \<^verbatim>\<open>(3[0-1]|[1-2]\d|0[1-9]|[1-9]| [1-9])/(1[0-2]|0[1-9]|[1-9])/(\d\d\d\d)\<close>,
  which must match the whole text; the numbers must then form a date of the calendar
  (years from 1). The result is midnight of that day.
\<close>

definition is_digit :: "char \<Rightarrow> bool" where
  "is_digit c = (c \<in> set ''0123456789'')"

definition digit_val :: "char \<Rightarrow> nat" where
  "digit_val c = of_char c - 48"

fun split_on :: "char \<Rightarrow> string \<Rightarrow> string list" where
  "split_on c [] = [[]]"
| "split_on c (x # xs) =
     (if x = c then [] # split_on c xs
      else (case split_on c xs of [] \<Rightarrow> [[x]] | p # ps \<Rightarrow> (x # p) # ps))"

fun match_d :: "string \<Rightarrow> nat option" where
  "match_d [a, b] =
     (if a = CHR ''3'' \<and> b \<in> set ''01'' then Some (30 + digit_val b)
      else if a \<in> set ''12'' \<and> is_digit b then Some (10 * digit_val a + digit_val b)
      else if a = CHR ''0'' \<and> b \<in> set ''123456789'' then Some (digit_val b)
      else if a = CHR '' '' \<and> b \<in> set ''123456789'' then Some (digit_val b)
      else None)"
| "match_d [a] = (if a \<in> set ''123456789'' then Some (digit_val a) else None)"
| "match_d s = None"

fun match_m :: "string \<Rightarrow> nat option" where
  "match_m [a, b] =
     (if a = CHR ''1'' \<and> b \<in> set ''012'' then Some (10 + digit_val b)
      else if a = CHR ''0'' \<and> b \<in> set ''123456789'' then Some (digit_val b)
      else None)"
| "match_m [a] = (if a \<in> set ''123456789'' then Some (digit_val a) else None)"
| "match_m s = None"

fun match_Y :: "string \<Rightarrow> nat option" where
  "match_Y [a, b, c, d] =
     (if is_digit a \<and> is_digit b \<and> is_digit c \<and> is_digit d
      then Some (1000 * digit_val a + 100 * digit_val b + 10 * digit_val c + digit_val d)
      else None)"
| "match_Y s = None"

definition leap_year :: "nat \<Rightarrow> bool" where
  "leap_year y = (y mod 4 = 0 \<and> (0 < y mod 100 \<or> y mod 400 = 0))"

definition days_in_month :: "nat \<Rightarrow> nat \<Rightarrow> nat" where
  "days_in_month y m =
     (if m = 2 then (if leap_year y then 29 else 28)
      else if m = 4 \<or> m = 6 \<or> m = 9 \<or> m = 11 then 30
      else 31)"

definition midnight :: "nat \<Rightarrow> nat \<Rightarrow> nat \<Rightarrow> datetime" where
  "midnight y m d =
     \<lparr>dt_year = y, dt_month = m, dt_day = d, dt_hour = 0, dt_minute = 0, dt_second = 0,
      dt_microsecond = 0\<rparr>"

definition strptime_dmY :: "string \<Rightarrow> exn + datetime" where
  "strptime_dmY s =
     (case split_on CHR ''/'' s of
        [ds, ms, ys] \<Rightarrow>
          (case (match_d ds, match_m ms, match_Y ys) of
             (Some d, Some m, Some y) \<Rightarrow>
               if 1 \<le> y \<and> d \<le> days_in_month y m then Inr (midnight y m d) else Inl ValueError
           | _ \<Rightarrow> Inl ValueError)
      | _ \<Rightarrow> Inl ValueError)"

text \<open>The argument comes from the store: anything but a string is a \<^verbatim>\<open>TypeError\<close>.\<close>

fun strptime :: "json \<Rightarrow> exn + datetime" where
  "strptime (JStr s) = strptime_dmY s"
| "strptime (JObj kvs) = Inl TypeError"
| "strptime JNull = Inl TypeError"

section \<open>get\_trip\_history\<close>

record status_view =
  sv_status :: json
  sv_driver_email :: json
  sv_driver_name :: json
  sv_driver_phone :: json
  sv_vehicle_number :: json
  sv_assigned_at :: json
  sv_completed_at :: json

record formatted_trip =
  ft_booking_id :: string
  ft_customer_email :: json
  ft_from_location :: json
  ft_to_location :: json
  ft_date :: json
  ft_created_at :: json
  ft_updated_at :: json
  ft_status :: status_view

text \<open>
  The inner \<^verbatim>\<open>try\<close>: the date is parsed only when \<^verbatim>\<open>date_str\<close> is truthy; a parse
  that raises is printed and gives \<^verbatim>\<open>None\<close>.
\<close>

definition parse_booking_date :: "string \<Rightarrow> json \<Rightarrow> world \<Rightarrow> datetime option \<times> world" where
  "parse_booking_date trip_id date_str w =
     (if truthy date_str
      then (case strptime date_str of
              Inl e \<Rightarrow>
                (None, w\<lparr>printed := printed w @ [Invalid_date_format trip_id date_str e]\<rparr>)
            | Inr d \<Rightarrow> (Some d, w))
      else (None, w))"

text \<open>\<^verbatim>\<open>trip_data['status'] = v\<close>\<close>

fun py_setitem :: "json \<Rightarrow> string \<Rightarrow> json \<Rightarrow> exn + json" where
  "py_setitem (JObj kvs) k v = Inr (JObj (AList.update k v kvs))"
| "py_setitem (JStr s) k v = Inl TypeError"
| "py_setitem JNull k v = Inl TypeError"

text \<open>
  The appended dict. \<^verbatim>\<open>trip_data\<close> is a dict by then (its \<^verbatim>\<open>get('date')\<close> did not
  raise), so its own \<^verbatim>\<open>get(k)\<close> is \<open>child\<close>; the seven reads through
  \<^verbatim>\<open>trip_data.get('status', {})\<close> raise together, at the first of them, when that value
  is not a dict.
\<close>

definition format_trip :: "string \<Rightarrow> json \<Rightarrow> exn + formatted_trip" where
  "format_trip trip_id trip_data =
     (case py_get trip_data ''status'' (JObj []) of
        Inl e \<Rightarrow> Inl e
      | Inr st \<Rightarrow>
          (case py_get st ''status'' (JStr ''pending'') of
             Inl e \<Rightarrow> Inl e
           | Inr s \<Rightarrow>
               Inr \<lparr>ft_booking_id = trip_id,
                    ft_customer_email = child trip_data ''customer_email'',
                    ft_from_location = child trip_data ''from_location'',
                    ft_to_location = child trip_data ''to_location'',
                    ft_date = child trip_data ''date'',
                    ft_created_at = child trip_data ''created_at'',
                    ft_updated_at = child trip_data ''updated_at'',
                    ft_status =
                      \<lparr>sv_status = s,
                       sv_driver_email = child st ''driver_email'',
                       sv_driver_name = child st ''driver_name'',
                       sv_driver_phone = child st ''driver_phone'',
                       sv_vehicle_number = child st ''vehicle_number'',
                       sv_assigned_at = child st ''assigned_at'',
                       sv_completed_at = child st ''completed_at''\<rparr>\<rparr>))"

text \<open>
  One turn of the loop. \<open>now\<close> is \<^verbatim>\<open>datetime.now()\<close>, the server's local time, and
  \<open>now_ist\<close> the ISO text of \<^verbatim>\<open>datetime.now(pytz.timezone('Asia/Kolkata'))\<close>; the
  clock is read once for the whole request.
\<close>

definition expired :: "datetime option \<Rightarrow> datetime \<Rightarrow> json \<Rightarrow> bool" where
  "expired booking_date current_date status_val =
     ((case booking_date of None \<Rightarrow> False | Some b \<Rightarrow> dt_less b current_date)
      \<and> status_val = JStr ''pending'')"

definition history_step ::
  "datetime \<Rightarrow> string \<Rightarrow> string \<times> json \<Rightarrow> world \<Rightarrow> (exn + formatted_trip) \<times> world" where
  "history_step now now_ist item w =
     (let (trip_id, trip_data) = item in
      case py_get trip_data ''date'' JNull of
        Inl e \<Rightarrow> (Inl e, w)
      | Inr date_str \<Rightarrow>
          (let (booking_date, w1) = parse_booking_date trip_id date_str w in
           case status_get trip_data ''status'' (JStr ''pending'') of
             Inl e \<Rightarrow> (Inl e, w1)
           | Inr status_val \<Rightarrow>
               if expired booking_date now status_val
               then (case ref_update [trip_id, ''status'']
                            (Dict [(''status'', JStr ''regret''), (''updated_at'', JStr now_ist)])
                            w1 of
                       Inl e \<Rightarrow> (Inl e, w1)
                     | Inr w2 \<Rightarrow>
                         (case py_setitem trip_data ''status''
                                 (JObj [(''status'', JStr ''regret'')]) of
                            Inl e \<Rightarrow> (Inl e, w2)
                          | Inr trip_data' \<Rightarrow> (format_trip trip_id trip_data', w2)))
               else (format_trip trip_id trip_data, w1)))"

fun history_loop ::
  "datetime \<Rightarrow> string \<Rightarrow> (string \<times> json) list \<Rightarrow> world
     \<Rightarrow> (exn + formatted_trip list) \<times> world" where
  "history_loop now now_ist [] w = (Inr [], w)"
| "history_loop now now_ist (item # rest) w =
     (case history_step now now_ist item w of
        (Inl e, w1) \<Rightarrow> (Inl e, w1)
      | (Inr f, w1) \<Rightarrow>
          (case history_loop now now_ist rest w1 of
             (Inl e, w2) \<Rightarrow> (Inl e, w2)
           | (Inr fs, w2) \<Rightarrow> (Inr (f # fs), w2)))"

definition get_trip_history_body ::
  "datetime \<Rightarrow> string \<Rightarrow> string \<Rightarrow> world \<Rightarrow> (exn + formatted_trip list) \<times> world" where
  "get_trip_history_body now now_ist email w =
     (let (customer_trips, w1) = query_equal_to ''customer_email'' email w in
      if customer_trips = [] then (Inr [], w1)
      else history_loop now now_ist customer_trips w1)"

definition get_trip_history ::
  "datetime \<Rightarrow> string \<Rightarrow> string \<Rightarrow> string option \<Rightarrow> world
     \<Rightarrow> (exn + formatted_trip list) \<times> world" where
  "get_trip_history now now_ist email authorization w =
     (if \<not> authorized authorization then (Inl unauthorized, w)
      else case get_trip_history_body now now_ist email w of
             (Inl e, w1) \<Rightarrow>
               (Inl (HTTPException 500 (Interp ''Failed to fetch trip history: '' e)),
                w1\<lparr>printed := printed w1 @ [Error_in ''/get-trip-history'' e]\<rparr>)
           | (Inr r, w1) \<Rightarrow> (Inr r, w1))"

section \<open>An example store\<close>

text \<open>
  Six trips, read at nine in the morning of 15 June 2025 (server time): one pending and
  one assigned for that day, one completed, one without a status record, one with an
  empty date and one with a date in another format.
\<close>

definition trip_of :: "string \<Rightarrow> string \<Rightarrow> (string \<times> json) list \<Rightarrow> json" where
  "trip_of email date rest =
     JObj ([(''customer_email'', JStr email),
            (''from_location'', JStr ''Puri''),
            (''to_location'', JStr ''Cuttack''),
            (''date'', JStr date),
            (''created_at'', JStr ''2025-06-01T10:00:00+05:30'')] @ rest)"

definition ex_trips :: "(string \<times> json) list" where
  "ex_trips =
     [(''b1'', trip_of ''asha@fill.in'' ''15/06/2025''
                 [(''status'', JObj [(''status'', JStr ''pending'')])]),
      (''b2'', trip_of ''asha@fill.in'' ''15/06/2025''
                 [(''status'', JObj [(''status'', JStr ''driver_assigned''),
                                      (''driver_email'', JStr ''ravi@fill.in''),
                                      (''driver_name'', JStr ''Ravi''),
                                      (''driver_phone'', JStr ''9000000001''),
                                      (''vehicle_number'', JStr ''OD02AB1234'')])]),
      (''b3'', trip_of ''binod@fill.in'' ''10/06/2025''
                 [(''status'', JObj [(''status'', JStr ''trip_completed'')])]),
      (''b4'', trip_of ''binod@fill.in'' ''15/06/2025'' []),
      (''b5'', trip_of ''chitra@fill.in'' ''''
                 [(''status'', JObj [(''status'', JStr ''pending'')])]),
      (''b6'', trip_of ''chitra@fill.in'' ''2025-06-20''
                 [(''status'', JObj [(''status'', JStr ''pending'')])])]"

definition ex_store :: world where
  "ex_store = \<lparr>trips = ex_trips, calls = [], printed = []\<rparr>"

definition ex_now :: datetime where
  "ex_now =
     \<lparr>dt_year = 2025, dt_month = 6, dt_day = 15, dt_hour = 9, dt_minute = 0, dt_second = 0,
      dt_microsecond = 0\<rparr>"

definition ex_now_ist :: string where
  "ex_now_ist = ''2025-06-15T09:00:00+05:30''"

section \<open>The authorization check comes first\<close>

lemma startswith_iff: "startswith s p \<longleftrightarrow> (\<exists>t. s = p @ t)"
  unfolding startswith_def by (metis append_eq_conv_conj append_take_drop_id)

lemma authorized_iff: "authorized a \<longleftrightarrow> (\<exists>t. a = Some (''Bearer '' @ t))"
proof (cases a)
  case None
  then show ?thesis by (simp add: authorized_def)
next
  case (Some h)
  have "authorized (Some h) \<longleftrightarrow> h \<noteq> [] \<and> (\<exists>t. h = ''Bearer '' @ t)"
    by (simp only: authorized_def option.case startswith_iff)
  also have "\<dots> \<longleftrightarrow> (\<exists>t. h = ''Bearer '' @ t)" by auto
  finally show ?thesis using Some by simp
qed

lemma not_authorized_iff:
  "\<not> authorized a \<longleftrightarrow> (case a of None \<Rightarrow> True | Some h \<Rightarrow> \<not> startswith h ''Bearer '')"
proof (cases a)
  case None
  then show ?thesis by (simp add: authorized_def)
next
  case (Some h)
  have "startswith h ''Bearer '' \<Longrightarrow> h \<noteq> []" by (auto simp: startswith_iff)
  then show ?thesis using Some by (auto simp only: authorized_def option.case)
qed

text \<open>
  Claim C7. A request of any of the five operations whose Authorization header is
  missing, or does not start with the Bearer prefix, is answered with the 401 exception,
  and the world comes back as it was: no call to the store was recorded, nothing was
  written and nothing printed.
\<close>

theorem unauthorized_is_401_before_store:
  assumes "case authorization of None \<Rightarrow> True | Some h \<Rightarrow> \<not> startswith h ''Bearer ''"
  shows "get_trip_history now now_ist email authorization w =
           (Inl (HTTPException 401 (Text ''Invalid or missing authorization header'')), w)
       \<and> update_trip_status now_ist booking_id status driver_email driver_name driver_phone
           vehicle_number authorization w =
           (Inl (HTTPException 401 (Text ''Invalid or missing authorization header'')), w)
       \<and> find_nearby_trips from_location date authorization w =
           (Inl (HTTPException 401 (Text ''Invalid or missing authorization header'')), w)
       \<and> edit_trip now_ist trip_id update_data authorization w =
           (Inl (HTTPException 401 (Text ''Invalid or missing authorization header'')), w)
       \<and> delete_trip trip_id authorization w =
           (Inl (HTTPException 401 (Text ''Invalid or missing authorization header'')), w)"
proof -
  from assms have "\<not> authorized authorization" by (simp only: not_authorized_iff)
  then show ?thesis
    by (simp add: get_trip_history_def update_trip_status_def find_nearby_trips_def
        edit_trip_def delete_trip_def unauthorized_def)
qed

theorem unauthorized_is_401_before_store_witness:
  "\<not> startswith ''Token abc'' ''Bearer ''
   \<and> get_trip_history ex_now ex_now_ist ''asha@fill.in'' (Some ''Token abc'') ex_store =
       (Inl (HTTPException 401 (Text ''Invalid or missing authorization header'')), ex_store)
   \<and> delete_trip ''b1'' (Some ''Token abc'') ex_store =
       (Inl (HTTPException 401 (Text ''Invalid or missing authorization header'')), ex_store)
   \<and> calls (snd (delete_trip ''b1'' None ex_store)) = []"
proof -
  have h: "\<not> startswith ''Token abc'' ''Bearer ''" by (simp add: startswith_def)
  have a: "case Some ''Token abc'' of None \<Rightarrow> True | Some h \<Rightarrow> \<not> startswith h ''Bearer ''"
    using h by simp
  have b: "case (None :: string option) of None \<Rightarrow> True | Some h \<Rightarrow> \<not> startswith h ''Bearer ''"
    by simp
  show ?thesis
    using h
      unauthorized_is_401_before_store [OF a, of ex_now ex_now_ist "''asha@fill.in''" ex_store]
      unauthorized_is_401_before_store [OF b, of ex_now ex_now_ist "''asha@fill.in''" ex_store]
    by (simp add: ex_store_def)
qed

section \<open>What an authorized request does to the call trace and the status code\<close>


lemma parse_booking_date_frame:
  "parse_booking_date k d w = (b, w1) \<Longrightarrow> calls w1 = calls w \<and> trips w1 = trips w"
  by (auto simp: parse_booking_date_def split: sum.splits if_splits)

lemma ref_update_calls:
  "ref_update path v w = Inr w' \<Longrightarrow> \<exists>cs. calls w' = calls w @ cs"
  by (cases v) (auto split: if_splits)

lemma history_step_calls: "\<exists>cs. calls (snd (history_step now ist item w)) = calls w @ cs"
proof (cases item)
  case (Pair k t)
  show ?thesis
    unfolding history_step_def Pair
    by (auto simp: Let_def split: sum.splits prod.splits if_splits
        dest!: ref_update_calls parse_booking_date_frame)
qed

lemma history_loop_calls: "\<exists>cs. calls (snd (history_loop now ist xs w)) = calls w @ cs"
proof (induction xs arbitrary: w)
  case Nil
  then show ?case by simp
next
  case (Cons item xs)
  obtain r w1 where s: "history_step now ist item w = (r, w1)" by (cases "history_step now ist item w")
  from history_step_calls[of now ist item w] s obtain cs1 where c1: "calls w1 = calls w @ cs1" by auto
  show ?case
  proof (cases r)
    case (Inl e)
    then show ?thesis using s c1 by simp
  next
    case (Inr f)
    obtain r2 w2 where l: "history_loop now ist xs w1 = (r2, w2)" by (cases "history_loop now ist xs w1")
    from Cons.IH[of w1] l obtain cs2 where c2: "calls w2 = calls w1 @ cs2" by auto
    show ?thesis using s Inr l c1 c2 by (cases r2) auto
  qed
qed

lemma get_trip_history_calls:
  assumes "authorized a"
  shows "\<exists>cs. calls (snd (get_trip_history now ist email a w)) =
           calls w @ Query_call [''trips''] ''customer_email'' email # cs"
proof -
  let ?w1 = "w\<lparr>calls := calls w @ [Query_call [''trips''] ''customer_email'' email]\<rparr>"
  let ?xs = "sort_key fst (filter (\<lambda>(k, t). child t ''customer_email'' = JStr email) (trips w))"
  obtain cs where c: "calls (snd (history_loop now ist ?xs ?w1)) = calls ?w1 @ cs"
    using history_loop_calls by blast
  show ?thesis
    using assms c
    by (auto simp: get_trip_history_def get_trip_history_body_def query_equal_to_def Let_def
        split: prod.splits sum.splits)
qed

lemma find_nearby_trips_calls:
  assumes "authorized a"
  shows "calls (snd (find_nearby_trips fl date a w)) = calls w @ [Query_call [''trips''] ''date'' date]"
  using assms
  by (auto simp: find_nearby_trips_def find_nearby_trips_body_def query_equal_to_def Let_def
        split: prod.splits sum.splits)

lemma update_trip_status_calls:
  assumes "authorized a"
  shows "calls (snd (update_trip_status ist k st de dn dp vn a w)) = calls w @ [Get_call [''trips'', k]]"
  using assms
  by (auto simp: update_trip_status_def update_trip_status_body_def ref_get_def Let_def
        split: prod.splits sum.splits if_splits)

lemma edit_trip_calls:
  assumes "authorized a"
  shows "\<exists>cs. calls (snd (edit_trip ist k u a w)) = calls w @ Get_call [''trips'', k] # cs"
  using assms
  by (auto simp: edit_trip_def edit_trip_body_def ref_get_def Let_def
        split: prod.splits sum.splits if_splits)

lemma delete_trip_calls:
  assumes "authorized a"
  shows "\<exists>cs. calls (snd (delete_trip k a w)) = calls w @ Get_call [''trips'', k] # cs"
  using assms
  by (auto simp: delete_trip_def delete_trip_body_def ref_get_def ref_delete_def Let_def
        split: prod.splits sum.splits if_splits)

lemma get_trip_history_codes:
  "fst (get_trip_history now ist email a w) = Inl e \<Longrightarrow>
     status_code e = (if authorized a then 500 else 401)"
  by (auto simp: get_trip_history_def unauthorized_def split: prod.splits sum.splits if_splits)

lemma update_trip_status_codes:
  "fst (update_trip_status ist k st de dn dp vn a w) = Inl e \<Longrightarrow>
     status_code e = (if authorized a then 500 else 401)"
  by (auto simp: update_trip_status_def unauthorized_def split: prod.splits sum.splits if_splits)

lemma find_nearby_trips_codes:
  "fst (find_nearby_trips fl date a w) = Inl e \<Longrightarrow>
     status_code e = (if authorized a then 500 else 401)"
  by (auto simp: find_nearby_trips_def unauthorized_def split: prod.splits sum.splits if_splits)

lemma edit_trip_codes:
  "fst (edit_trip ist k u a w) = Inl e \<Longrightarrow> status_code e = (if authorized a then 500 else 401)"
  by (auto simp: edit_trip_def unauthorized_def split: prod.splits sum.splits if_splits)

lemma delete_trip_codes:
  "fst (delete_trip k a w) = Inl e \<Longrightarrow> status_code e = (if authorized a then 500 else 401)"
  by (auto simp: delete_trip_def unauthorized_def split: prod.splits sum.splits if_splits)

lemma rejects_iff:
  assumes codes: "\<And>e. fst r = Inl e \<Longrightarrow> status_code e = (if authorized a then 500 else 401)"
    and un: "\<not> authorized a \<Longrightarrow> fst r = Inl unauthorized"
  shows "(\<exists>e. fst r = Inl e \<and> status_code e = 401) \<longleftrightarrow> \<not> (\<exists>t. a = Some (''Bearer '' @ t))"
proof (cases "authorized a")
  case True
  then have "\<not> (\<exists>e. fst r = Inl e \<and> status_code e = 401)" using codes by fastforce
  then show ?thesis using True by (simp add: authorized_iff)
next
  case False
  then have "fst r = Inl unauthorized \<and> status_code unauthorized = 401"
    using un by (simp add: unauthorized_def)
  then have "\<exists>e. fst r = Inl e \<and> status_code e = 401" by blast
  then show ?thesis using False by (simp add: authorized_iff)
qed

text \<open>
  Claim C9. For each of the five operations the answer is the 401 exception exactly when
  the header is absent or does not start with the seven characters \<open>''Bearer ''\<close>
  (an authorized request fails with 500 if it fails, never with 401). The header
  \<open>''Bearer ''\<close> with an empty token passes: the first request to the store is
  recorded.
\<close>

theorem rejected_with_401_iff_no_bearer_prefix:
  "((\<exists>e. fst (get_trip_history now now_ist email authorization w) = Inl e \<and> status_code e = 401)
      \<longleftrightarrow> \<not> (\<exists>t. authorization = Some (''Bearer '' @ t)))
   \<and> ((\<exists>e. fst (update_trip_status now_ist booking_id status driver_email driver_name
                  driver_phone vehicle_number authorization w) = Inl e \<and> status_code e = 401)
      \<longleftrightarrow> \<not> (\<exists>t. authorization = Some (''Bearer '' @ t)))
   \<and> ((\<exists>e. fst (find_nearby_trips from_location date authorization w) = Inl e
              \<and> status_code e = 401)
      \<longleftrightarrow> \<not> (\<exists>t. authorization = Some (''Bearer '' @ t)))
   \<and> ((\<exists>e. fst (edit_trip now_ist trip_id update_data authorization w) = Inl e
              \<and> status_code e = 401)
      \<longleftrightarrow> \<not> (\<exists>t. authorization = Some (''Bearer '' @ t)))
   \<and> ((\<exists>e. fst (delete_trip trip_id authorization w) = Inl e \<and> status_code e = 401)
      \<longleftrightarrow> \<not> (\<exists>t. authorization = Some (''Bearer '' @ t)))
   \<and> (\<exists>cs. calls (snd (get_trip_history now now_ist email (Some ''Bearer '') w)) =
             calls w @ Query_call [''trips''] ''customer_email'' email # cs)
   \<and> calls (snd (update_trip_status now_ist booking_id status driver_email driver_name
                  driver_phone vehicle_number (Some ''Bearer '') w)) =
        calls w @ [Get_call [''trips'', booking_id]]
   \<and> calls (snd (find_nearby_trips from_location date (Some ''Bearer '') w)) =
        calls w @ [Query_call [''trips''] ''date'' date]
   \<and> (\<exists>cs. calls (snd (edit_trip now_ist trip_id update_data (Some ''Bearer '') w)) =
             calls w @ Get_call [''trips'', trip_id] # cs)
   \<and> (\<exists>cs. calls (snd (delete_trip trip_id (Some ''Bearer '') w)) =
             calls w @ Get_call [''trips'', trip_id] # cs)"
proof -
  have b: "authorized (Some ''Bearer '')" by (simp add: authorized_def startswith_def)
  have 1: "(\<exists>e. fst (get_trip_history now now_ist email authorization w) = Inl e
              \<and> status_code e = 401) \<longleftrightarrow> \<not> (\<exists>t. authorization = Some (''Bearer '' @ t))"
    by (rule rejects_iff) (auto simp: get_trip_history_codes get_trip_history_def)
  have 2: "(\<exists>e. fst (update_trip_status now_ist booking_id status driver_email driver_name
                  driver_phone vehicle_number authorization w) = Inl e \<and> status_code e = 401)
      \<longleftrightarrow> \<not> (\<exists>t. authorization = Some (''Bearer '' @ t))"
    by (rule rejects_iff) (auto simp: update_trip_status_codes update_trip_status_def)
  have 3: "(\<exists>e. fst (find_nearby_trips from_location date authorization w) = Inl e
              \<and> status_code e = 401) \<longleftrightarrow> \<not> (\<exists>t. authorization = Some (''Bearer '' @ t))"
    by (rule rejects_iff) (auto simp: find_nearby_trips_codes find_nearby_trips_def)
  have 4: "(\<exists>e. fst (edit_trip now_ist trip_id update_data authorization w) = Inl e
              \<and> status_code e = 401) \<longleftrightarrow> \<not> (\<exists>t. authorization = Some (''Bearer '' @ t))"
    by (rule rejects_iff) (auto simp: edit_trip_codes edit_trip_def)
  have 5: "(\<exists>e. fst (delete_trip trip_id authorization w) = Inl e \<and> status_code e = 401)
      \<longleftrightarrow> \<not> (\<exists>t. authorization = Some (''Bearer '' @ t))"
    by (rule rejects_iff) (auto simp: delete_trip_codes delete_trip_def)
  show ?thesis
    by (intro conjI 1 2 3 4 5 get_trip_history_calls [OF b] update_trip_status_calls [OF b]
        find_nearby_trips_calls [OF b] edit_trip_calls [OF b] delete_trip_calls [OF b])
qed

theorem rejected_with_401_iff_no_bearer_prefix_witness:
  "(\<exists>e. fst (delete_trip ''b1'' (Some ''Bearer'') ex_store) = Inl e \<and> status_code e = 401)
   \<and> \<not> (\<exists>e. fst (delete_trip ''b1'' (Some ''Bearer '') ex_store) = Inl e \<and> status_code e = 401)
   \<and> calls (snd (find_nearby_trips ''Puri'' ''15/06/2025'' (Some ''Bearer '') ex_store)) =
        [Query_call [''trips''] ''date'' ''15/06/2025'']"
proof -
  have n: "\<not> (\<exists>t. Some ''Bearer'' = Some (''Bearer '' @ t))" by simp
  have y: "\<exists>t. Some ''Bearer '' = Some (''Bearer '' @ t)" by simp
  show ?thesis
    using n y
      rejected_with_401_iff_no_bearer_prefix
        [where authorization = "Some ''Bearer''" and w = ex_store and trip_id = "''b1''"]
      rejected_with_401_iff_no_bearer_prefix
        [where authorization = "Some ''Bearer ''" and w = ex_store and trip_id = "''b1''"
           and from_location = "''Puri''" and date = "''15/06/2025''"]
    by (simp add: ex_store_def)
qed

section \<open>find\_nearby\_trips returns the pending trips of the date\<close>


lemma distinct_keys_sorted_matches:
  "distinct (map fst xs) \<Longrightarrow> distinct (map fst (sort_key fst (filter P xs)))"
  using distinct_map_filter [of fst xs P] by (simp add: distinct_map)







lemma ex_distinct: "distinct (map fst (trips ex_store))"
  by (simp add: ex_store_def ex_trips_def)


section \<open>Failures inside the try block are answered with 500\<close>


lemmas handler_defs =
  get_trip_history_def get_trip_history_body_def history_step_def parse_booking_date_def
  format_trip_def expired_def update_trip_status_def update_trip_status_body_def
  status_update_def all_truthy_def find_nearby_trips_def find_nearby_trips_body_def
  summary_def edit_trip_def edit_trip_body_def delete_trip_def delete_trip_body_def
  ref_get_def ref_delete_def query_equal_to_def status_get_def child_def authorized_def
  startswith_def unauthorized_def

lemmas date_defs =
  strptime_dmY_def midnight_def is_digit_def digit_val_def days_in_month_def leap_year_def
  dt_less_def dt_fields_def

lemmas example_defs = ex_store_def ex_trips_def trip_of_def ex_now_def ex_now_ist_def

text \<open>
  Each handler raises its 404 and 400 exceptions inside the \<^verbatim>\<open>try\<close> whose
  \<^verbatim>\<open>except Exception\<close> raises 500 in their place. For every authorized request that
  reaches one of these \<^verbatim>\<open>raise\<close> statements the answer is 500, and the trips are as
  before.
\<close>

lemma update_trip_status_unknown_booking:
  assumes "authorized authorization" and "map_of (trips w) booking_id = None"
  shows "update_trip_status now_ist booking_id status driver_email driver_name driver_phone
           vehicle_number authorization w =
         (Inl (HTTPException 500
                (Interp ''Failed to update trip status: ''
                   (HTTPException 404 (Text ''Trip not found'')))),
          w\<lparr>calls := calls w @ [Get_call [''trips'', booking_id]],
            printed := printed w @ [Error_in ''/update-trip-status''
                                     (HTTPException 404 (Text ''Trip not found''))]\<rparr>)"
  using assms by (simp add: update_trip_status_def update_trip_status_body_def ref_get_def)

lemma update_trip_status_missing_driver_details:
  assumes "authorized authorization" and "map_of (trips w) booking_id = Some (JObj kvs)"
    and "kvs \<noteq> []"
    and "\<not> all_truthy [driver_email, driver_name, driver_phone, vehicle_number]"
  shows "update_trip_status now_ist booking_id ''driver_assigned'' driver_email driver_name
           driver_phone vehicle_number authorization w =
         (Inl (HTTPException 500
                (Interp ''Failed to update trip status: ''
                   (HTTPException 400 (Text ''Driver details required for assignment'')))),
          w\<lparr>calls := calls w @ [Get_call [''trips'', booking_id]],
            printed := printed w @ [Error_in ''/update-trip-status''
                                     (HTTPException 400
                                        (Text ''Driver details required for assignment''))]\<rparr>)"
  using assms
  by (simp add: update_trip_status_def update_trip_status_body_def ref_get_def status_update_def)

lemma edit_trip_not_pending:
  assumes "authorized authorization" and "map_of (trips w) trip_id = Some (JObj kvs)"
    and "kvs \<noteq> []"
    and "status_get (JObj kvs) ''status'' JNull = Inr s" and "s \<noteq> JStr ''pending''"
  shows "edit_trip now_ist trip_id update_data authorization w =
         (Inl (HTTPException 500
                (Interp ''Failed to update trip: ''
                   (HTTPException 400 (Text ''Can only edit pending trips'')))),
          w\<lparr>calls := calls w @ [Get_call [''trips'', trip_id]],
            printed := printed w @ [Error_in ''/edit-trip''
                                     (HTTPException 400
                                        (Text ''Can only edit pending trips''))]\<rparr>)"
  using assms by (simp add: edit_trip_def edit_trip_body_def ref_get_def)

lemma delete_trip_not_pending:
  assumes "authorized authorization" and "map_of (trips w) trip_id = Some (JObj kvs)"
    and "kvs \<noteq> []"
    and "status_get (JObj kvs) ''status'' JNull = Inr s" and "s \<noteq> JStr ''pending''"
  shows "delete_trip trip_id authorization w =
         (Inl (HTTPException 500
                (Interp ''Failed to delete trip: ''
                   (HTTPException 400 (Text ''Can only delete pending trips'')))),
          w\<lparr>calls := calls w @ [Get_call [''trips'', trip_id]],
            printed := printed w @ [Error_in ''/delete-trip''
                                     (HTTPException 400
                                        (Text ''Can only delete pending trips''))]\<rparr>)"
  using assms by (simp add: delete_trip_def delete_trip_body_def ref_get_def)

text \<open>
  Claim C3. The claim asks for the 404 condition when the booking id resolves to no
  trip. The handler raises it inside its \<^verbatim>\<open>try\<close>, and \<^verbatim>\<open>except Exception\<close>
  catches it: for the unknown id \<open>''b9''\<close> the answer is 500, with the 404 exception as
  the text of its detail.
\<close>

theorem update_trip_status_unknown_booking_is_500:
  "update_trip_status ex_now_ist ''b9'' ''trip_completed'' None None None None
       (Some ''Bearer tok'') ex_store =
     (Inl (HTTPException 500
            (Interp ''Failed to update trip status: ''
               (HTTPException 404 (Text ''Trip not found'')))),
      ex_store\<lparr>calls := [Get_call [''trips'', ''b9'']],
                printed := [Error_in ''/update-trip-status''
                              (HTTPException 404 (Text ''Trip not found''))]\<rparr>)"
  by (simp add: handler_defs example_defs)

text \<open>
  Claim C4. The claim asks for the 400 condition when an existing trip that is not
  pending is edited or deleted. Both handlers raise it inside their \<^verbatim>\<open>try\<close>: editing
  the assigned trip \<open>''b2''\<close> and deleting the completed trip \<open>''b3''\<close> are answered
  with 500. The trips of the store are as before, both still there.
\<close>

theorem edit_and_delete_of_non_pending_trip_is_500:
  "edit_trip ex_now_ist ''b2''
       \<lparr>tu_from_location = ''Konark'', tu_to_location = ''Puri'', tu_date = ''20/06/2025''\<rparr>
       (Some ''Bearer tok'') ex_store =
     (Inl (HTTPException 500
            (Interp ''Failed to update trip: ''
               (HTTPException 400 (Text ''Can only edit pending trips'')))),
      ex_store\<lparr>calls := [Get_call [''trips'', ''b2'']],
                printed := [Error_in ''/edit-trip''
                              (HTTPException 400 (Text ''Can only edit pending trips''))]\<rparr>)
   \<and> delete_trip ''b3'' (Some ''Bearer tok'') ex_store =
     (Inl (HTTPException 500
            (Interp ''Failed to delete trip: ''
               (HTTPException 400 (Text ''Can only delete pending trips'')))),
      ex_store\<lparr>calls := [Get_call [''trips'', ''b3'']],
                printed := [Error_in ''/delete-trip''
                              (HTTPException 400 (Text ''Can only delete pending trips''))]\<rparr>)"
  by (simp add: handler_defs example_defs)

text \<open>
  Claim C5. The claim asks for the 400 condition when \<^verbatim>\<open>driver_assigned\<close> is requested
  and a driver field is missing. With \<^verbatim>\<open>driver_name\<close> missing the answer is 500, the
  400 exception being caught by the handler itself. Nothing is written.
\<close>

theorem driver_assignment_without_details_is_500:
  "update_trip_status ex_now_ist ''b1'' ''driver_assigned'' (Some ''ravi@fill.in'') None
       (Some ''9000000001'') (Some ''OD02AB1234'') (Some ''Bearer tok'') ex_store =
     (Inl (HTTPException 500
            (Interp ''Failed to update trip status: ''
               (HTTPException 400 (Text ''Driver details required for assignment'')))),
      ex_store\<lparr>calls := [Get_call [''trips'', ''b1'']],
                printed := [Error_in ''/update-trip-status''
                              (HTTPException 400
                                 (Text ''Driver details required for assignment''))]\<rparr>)"
  by (simp add: handler_defs example_defs)

text \<open>
  The write of update\_trip\_status passes a list of tuples to \<^verbatim>\<open>Reference.update\<close>,
  which takes a dict only: a complete assignment of trip \<open>''b1''\<close> and the completion
  of trip \<open>''b2''\<close> both end in 500, with nothing written and no confirmation
  returned. Claim C1 speaks of the calls that succeed, and is left open: no call does.
\<close>

lemma update_trip_status_write_is_refused:
  "update_trip_status ex_now_ist ''b1'' ''driver_assigned'' (Some ''ravi@fill.in'')
       (Some ''Ravi'') (Some ''9000000001'') (Some ''OD02AB1234'') (Some ''Bearer tok'')
       ex_store =
     (Inl (HTTPException 500 (Interp ''Failed to update trip status: '' ValueError)),
      ex_store\<lparr>calls := [Get_call [''trips'', ''b1'']],
                printed := [Error_in ''/update-trip-status'' ValueError]\<rparr>)
   \<and> update_trip_status ex_now_ist ''b2'' ''trip_completed'' None None None None
       (Some ''Bearer tok'') ex_store =
     (Inl (HTTPException 500 (Interp ''Failed to update trip status: '' ValueError)),
      ex_store\<lparr>calls := [Get_call [''trips'', ''b2'']],
                printed := [Error_in ''/update-trip-status'' ValueError]\<rparr>)"
  by (simp add: handler_defs example_defs)

text \<open>No call of update\_trip\_status returns a confirmation.\<close>

lemma update_trip_status_never_succeeds:
  "fst (update_trip_status now_ist booking_id status driver_email driver_name driver_phone
          vehicle_number authorization w) \<noteq> Inr m"
  by (auto simp: update_trip_status_def update_trip_status_body_def Let_def
      split: prod.splits sum.splits if_splits)


text \<open>
  The reference written to is that of the trip, not of its \<^verbatim>\<open>status\<close> child. The dict
  of a completion, written there, would put the string in the place of the status
  record of trip \<open>''b2''\<close>, whose driver fields would be gone.
\<close>

lemma write_at_the_trip_node_replaces_the_status_record:
  "status_update ex_now_ist ''trip_completed'' None None None None =
     Inr [(''status'', JStr ''trip_completed''),
          (''updated_at'', JStr ''2025-06-15T09:00:00+05:30''),
          (''completed_at'', JStr ''2025-06-15T09:00:00+05:30'')]
   \<and> map_option (\<lambda>w. map_of (trips w) ''b2'')
        (case ref_update [''b2'']
                (Dict [(''status'', JStr ''trip_completed''),
                       (''updated_at'', JStr ''2025-06-15T09:00:00+05:30''),
                       (''completed_at'', JStr ''2025-06-15T09:00:00+05:30'')]) ex_store of
           Inl e \<Rightarrow> None | Inr w \<Rightarrow> Some w) =
       Some (Some (trip_of ''asha@fill.in'' ''15/06/2025''
               [(''status'', JStr ''trip_completed''),
                (''updated_at'', JStr ''2025-06-15T09:00:00+05:30''),
                (''completed_at'', JStr ''2025-06-15T09:00:00+05:30'')]))"
  by (simp add: handler_defs example_defs)

section \<open>Expiry on read\<close>

text \<open>
  The parsed date is midnight of its day and is compared with the current date and time:
  a pending trip expires when its day is before today, and also when its day is today
  and the clock is past midnight.
\<close>

lemma expired_midnight_iff:
  "expired (Some (midnight y m d)) now (JStr ''pending'') \<longleftrightarrow>
     lex_less [y, m, d] [dt_year now, dt_month now, dt_day now]
     \<or> ([y, m, d] = [dt_year now, dt_month now, dt_day now]
        \<and> (0 < dt_hour now \<or> 0 < dt_minute now \<or> 0 < dt_second now
             \<or> 0 < dt_microsecond now))"
  by (auto simp: expired_def dt_less_def dt_fields_def midnight_def)

text \<open>
  Claim C2. The claim has a pending trip expire exactly when its date is strictly before
  the current date, and leaves a trip of the current date unchanged. Trip \<open>''b1''\<close> is
  pending and dated 15/06/2025; read at 09:00 of that day it is returned as
  \<^verbatim>\<open>regret\<close> and rewritten to \<^verbatim>\<open>regret\<close> in the store.
\<close>

theorem pending_trip_dated_today_is_expired:
  "strptime (JStr ''15/06/2025'') = Inr (midnight 2025 6 15)
   \<and> (dt_year ex_now, dt_month ex_now, dt_day ex_now) = (2025, 6, 15)
   \<and> map_of (trips ex_store) ''b1'' =
       Some (trip_of ''asha@fill.in'' ''15/06/2025''
               [(''status'', JObj [(''status'', JStr ''pending'')])])
   \<and> fst (get_trip_history ex_now ex_now_ist ''asha@fill.in'' (Some ''Bearer tok'') ex_store) =
       Inr [\<lparr>ft_booking_id = ''b1'', ft_customer_email = JStr ''asha@fill.in'',
             ft_from_location = JStr ''Puri'', ft_to_location = JStr ''Cuttack'',
             ft_date = JStr ''15/06/2025'',
             ft_created_at = JStr ''2025-06-01T10:00:00+05:30'', ft_updated_at = JNull,
             ft_status =
               \<lparr>sv_status = JStr ''regret'', sv_driver_email = JNull,
                sv_driver_name = JNull, sv_driver_phone = JNull, sv_vehicle_number = JNull,
                sv_assigned_at = JNull, sv_completed_at = JNull\<rparr>\<rparr>,
            \<lparr>ft_booking_id = ''b2'', ft_customer_email = JStr ''asha@fill.in'',
             ft_from_location = JStr ''Puri'', ft_to_location = JStr ''Cuttack'',
             ft_date = JStr ''15/06/2025'',
             ft_created_at = JStr ''2025-06-01T10:00:00+05:30'', ft_updated_at = JNull,
             ft_status =
               \<lparr>sv_status = JStr ''driver_assigned'',
                sv_driver_email = JStr ''ravi@fill.in'', sv_driver_name = JStr ''Ravi'',
                sv_driver_phone = JStr ''9000000001'',
                sv_vehicle_number = JStr ''OD02AB1234'', sv_assigned_at = JNull,
                sv_completed_at = JNull\<rparr>\<rparr>]
   \<and> map_of (trips (snd (get_trip_history ex_now ex_now_ist ''asha@fill.in''
                           (Some ''Bearer tok'') ex_store))) ''b1'' =
       Some (trip_of ''asha@fill.in'' ''15/06/2025''
               [(''status'', JObj [(''status'', JStr ''regret''),
                                    (''updated_at'', JStr ''2025-06-15T09:00:00+05:30'')])])
   \<and> calls (snd (get_trip_history ex_now ex_now_ist ''asha@fill.in'' (Some ''Bearer tok'')
                   ex_store)) =
       [Query_call [''trips''] ''customer_email'' ''asha@fill.in'',
        Update_call [''trips'', ''b1'', ''status'']
          [(''status'', JStr ''regret''),
           (''updated_at'', JStr ''2025-06-15T09:00:00+05:30'')]]"
  by (simp add: handler_defs date_defs example_defs)

section \<open>A date that does not parse\<close>


lemma ref_update_other_trip:
  assumes "ref_update (k' # path) v w = Inr w1" and "k \<noteq> k'"
  shows "map_of (trips w1) k = map_of (trips w) k"
  using assms by (cases v) (auto simp: update_conv' split: if_splits)

lemma ref_update_printed:
  "ref_update path v w = Inr w1 \<Longrightarrow> printed w1 = printed w"
  by (cases v) (auto split: if_splits)

lemma ref_update_Dict_succeeds:
  "kvs \<noteq> [] \<Longrightarrow> \<exists>w1. ref_update path (Dict kvs) w = Inr w1"
  by simp

lemma status_get_shaped:
  assumes "case map_of kvs ''status'' of None \<Rightarrow> True | Some st \<Rightarrow> is_dict st"
  shows "\<exists>s. status_get (JObj kvs) ''status'' (JStr ''pending'') = Inr s"
proof (cases "map_of kvs ''status''")
  case None
  then show ?thesis by (simp add: status_get_def)
next
  case (Some st)
  with assms obtain c where "st = JObj c" by (cases st) auto
  with Some show ?thesis by (simp add: status_get_def)
qed

lemma format_trip_shaped:
  assumes "case map_of kvs ''status'' of None \<Rightarrow> True | Some st \<Rightarrow> is_dict st"
  shows "\<exists>f. format_trip k (JObj kvs) = Inr f
             \<and> status_get (JObj kvs) ''status'' (JStr ''pending'') = Inr (sv_status (ft_status f))"
proof (cases "map_of kvs ''status''")
  case None
  then show ?thesis by (simp add: format_trip_def status_get_def)
next
  case (Some st)
  with assms obtain c where "st = JObj c" by (cases st) auto
  with Some show ?thesis by (simp add: format_trip_def status_get_def)
qed

lemma format_trip_regret:
  "\<exists>f. format_trip k (JObj (AList.update ''status'' (JObj [(''status'', JStr ''regret'')]) kvs)) = Inr f"
  by (simp add: format_trip_def update_conv')

text \<open>A turn of the loop on a trip whose date does not parse.\<close>

lemma history_step_unparsable:
  assumes shape: "case map_of kvs ''status'' of None \<Rightarrow> True | Some st \<Rightarrow> is_dict st"
    and nopar: "\<forall>d. strptime (child (JObj kvs) ''date'') \<noteq> Inr d"
  shows "\<exists>f new. history_step now ist (k, JObj kvs) w = (Inr f, w\<lparr>printed := printed w @ new\<rparr>)
           \<and> format_trip k (JObj kvs) = Inr f
           \<and> ((\<exists>e. Invalid_date_format k (child (JObj kvs) ''date'') e \<in> set new)
                \<longleftrightarrow> truthy (child (JObj kvs) ''date''))"
proof -
  let ?d = "child (JObj kvs) ''date''"
  have g: "py_get (JObj kvs) ''date'' JNull = Inr ?d" by (simp add: child_def)
  from nopar obtain e where e: "strptime ?d = Inl e" by (cases "strptime ?d") auto
  let ?new = "if truthy ?d then [Invalid_date_format k ?d e] else []"
  have p: "parse_booking_date k ?d w = (None, w\<lparr>printed := printed w @ ?new\<rparr>)"
    using e by (simp add: parse_booking_date_def)
  from status_get_shaped [OF shape] obtain s where
    s: "status_get (JObj kvs) ''status'' (JStr ''pending'') = Inr s" by blast
  from format_trip_shaped [OF shape] obtain f where f: "format_trip k (JObj kvs) = Inr f" by blast
  have "history_step now ist (k, JObj kvs) w = (Inr f, w\<lparr>printed := printed w @ ?new\<rparr>)"
    unfolding history_step_def by (simp only: prod.case Let_def g sum.case p s expired_def option.case simp_thms if_False f)
  moreover have "(\<exists>e. Invalid_date_format k ?d e \<in> set ?new) \<longleftrightarrow> truthy ?d" by simp
  ultimately show ?thesis using f by blast
qed

lemma parse_booking_date_result:
  "\<exists>b new. parse_booking_date k d w = (b, w\<lparr>printed := printed w @ new\<rparr>)
            \<and> (\<forall>l \<in> set new. \<exists>e. l = Invalid_date_format k d e)"
proof (cases "truthy d")
  case False
  show ?thesis
    by (rule exI [of _ None], rule exI [of _ "[]"]) (simp add: parse_booking_date_def False)
next
  case True
  show ?thesis
  proof (cases "strptime d")
    case (Inl e)
    show ?thesis
      by (rule exI [of _ None], rule exI [of _ "[Invalid_date_format k d e]"])
         (simp add: parse_booking_date_def True Inl)
  next
    case (Inr dt)
    show ?thesis
      by (rule exI [of _ "Some dt"], rule exI [of _ "[]"])
         (simp add: parse_booking_date_def True Inr)
  qed
qed

text \<open>A turn of the loop on any trip of the data model's shape.\<close>

lemma history_step_shaped:
  assumes shape: "case map_of kvs ''status'' of None \<Rightarrow> True | Some st \<Rightarrow> is_dict st"
  shows "\<exists>f w1 new. history_step now ist (k', JObj kvs) w = (Inr f, w1)
           \<and> (\<forall>k. k \<noteq> k' \<longrightarrow> map_of (trips w1) k = map_of (trips w) k)
           \<and> printed w1 = printed w @ new
           \<and> (\<forall>l \<in> set new. \<exists>d e. l = Invalid_date_format k' d e)"
proof -
  let ?d = "child (JObj kvs) ''date''"
  have g: "py_get (JObj kvs) ''date'' JNull = Inr ?d" by (simp add: child_def)
  from parse_booking_date_result [of k' ?d w] obtain b new where
    p: "parse_booking_date k' ?d w = (b, w\<lparr>printed := printed w @ new\<rparr>)"
    and new: "\<forall>l \<in> set new. \<exists>e. l = Invalid_date_format k' ?d e" by blast
  from new have new': "\<forall>l \<in> set new. \<exists>d e. l = Invalid_date_format k' d e" by blast
  let ?wp = "w\<lparr>printed := printed w @ new\<rparr>"
  from status_get_shaped [OF shape] obtain s where
    s: "status_get (JObj kvs) ''status'' (JStr ''pending'') = Inr s" by blast
  show ?thesis
  proof (cases "expired b now s")
    case False
    from format_trip_shaped [OF shape] obtain f where f: "format_trip k' (JObj kvs) = Inr f"
      by blast
    have h: "history_step now ist (k', JObj kvs) w = (Inr f, ?wp)"
      unfolding history_step_def
      by (simp only: prod.case Let_def g sum.case p s False if_False f)
    have t: "\<forall>k. k \<noteq> k' \<longrightarrow> map_of (trips ?wp) k = map_of (trips w) k" by simp
    have q: "printed ?wp = printed w @ new" by simp
    from h t q new' show ?thesis by blast
  next
    case True
    let ?upd = "Dict [(''status'', JStr ''regret''), (''updated_at'', JStr ist)]"
    obtain w2 where u: "ref_update [k', ''status''] ?upd ?wp = Inr w2" by simp
    from format_trip_regret obtain f where
      f: "format_trip k' (JObj (AList.update ''status'' (JObj [(''status'', JStr ''regret'')]) kvs))
            = Inr f" by blast
    have h: "history_step now ist (k', JObj kvs) w = (Inr f, w2)"
      unfolding history_step_def
      by (simp only: prod.case Let_def g sum.case p s True if_True u py_setitem.simps f)
    have t: "\<forall>k. k \<noteq> k' \<longrightarrow> map_of (trips w2) k = map_of (trips w) k"
      using ref_update_other_trip [OF u] by simp
    have q: "printed w2 = printed w @ new"
      using ref_update_printed [OF u] by simp
    from h t q new' show ?thesis by blast
  qed
qed

text \<open>The loop on trips of the data model's shape: it succeeds, writes only to the
  trips it goes through and prints only about them.\<close>

lemma history_loop_shaped:
  assumes "\<forall>(k', t') \<in> set xs. is_dict t'
             \<and> (case map_of (children t') ''status'' of None \<Rightarrow> True | Some st \<Rightarrow> is_dict st)"
  shows "\<exists>fs w' new. history_loop now ist xs w = (Inr fs, w')
           \<and> (\<forall>k. k \<notin> fst ` set xs \<longrightarrow> map_of (trips w') k = map_of (trips w) k)
           \<and> printed w' = printed w @ new
           \<and> (\<forall>l \<in> set new. \<exists>k' d e. l = Invalid_date_format k' d e \<and> k' \<in> fst ` set xs)"
  using assms
proof (induction xs arbitrary: w)
  case Nil
  have "history_loop now ist [] w = (Inr [], w)" "printed w = printed w @ []" by simp_all
  then show ?case by fastforce
next
  case (Cons x xs)
  obtain k' t' where x: "x = (k', t')" by (cases x)
  from Cons.prems x obtain kvs where t': "t' = JObj kvs" by (cases t') auto
  from Cons.prems x t'
  have sh: "case map_of kvs ''status'' of None \<Rightarrow> True | Some st \<Rightarrow> is_dict st" by simp
  from history_step_shaped [OF sh, of now ist k' w] obtain f w1 new1 where
    st: "history_step now ist (k', JObj kvs) w = (Inr f, w1)"
    and fr1: "\<forall>k. k \<noteq> k' \<longrightarrow> map_of (trips w1) k = map_of (trips w) k"
    and pr1: "printed w1 = printed w @ new1"
    and ln1: "\<forall>l \<in> set new1. \<exists>d e. l = Invalid_date_format k' d e" by blast
  from Cons.prems have "\<forall>(k', t') \<in> set xs. is_dict t'
             \<and> (case map_of (children t') ''status'' of None \<Rightarrow> True | Some st \<Rightarrow> is_dict st)"
    by simp
  from Cons.IH [OF this, of w1] obtain fs w' new2 where
    lp: "history_loop now ist xs w1 = (Inr fs, w')"
    and fr2: "\<forall>k. k \<notin> fst ` set xs \<longrightarrow> map_of (trips w') k = map_of (trips w1) k"
    and pr2: "printed w' = printed w1 @ new2"
    and ln2: "\<forall>l \<in> set new2. \<exists>k' d e. l = Invalid_date_format k' d e \<and> k' \<in> fst ` set xs"
    by blast
  have a: "history_loop now ist (x # xs) w = (Inr (f # fs), w')"
    using st lp x t' by simp
  have b: "\<forall>k. k \<notin> fst ` set (x # xs) \<longrightarrow> map_of (trips w') k = map_of (trips w) k"
    using fr1 fr2 x by simp
  have c: "printed w' = printed w @ (new1 @ new2)" using pr1 pr2 by simp
  have d: "\<forall>l \<in> set (new1 @ new2).
             \<exists>k'' d e. l = Invalid_date_format k'' d e \<and> k'' \<in> fst ` set (x # xs)"
  proof
    fix l assume "l \<in> set (new1 @ new2)"
    then consider "l \<in> set new1" | "l \<in> set new2" by auto
    then show "\<exists>k'' d e. l = Invalid_date_format k'' d e \<and> k'' \<in> fst ` set (x # xs)"
    proof cases
      case 1
      with ln1 obtain d e where "l = Invalid_date_format k' d e" by blast
      then show ?thesis using x by auto
    next
      case 2
      with ln2 obtain k'' d e where "l = Invalid_date_format k'' d e" "k'' \<in> fst ` set xs"
        by blast
      then show ?thesis by auto
    qed
  qed
  from a b c d show ?case by blast
qed

lemma history_loop_unparsable:
  assumes "\<forall>(k', t') \<in> set xs. is_dict t'
             \<and> (case map_of (children t') ''status'' of None \<Rightarrow> True | Some st \<Rightarrow> is_dict st)"
    and "distinct (map fst xs)"
    and "(k, t) \<in> set xs"
    and "\<forall>d. strptime (child t ''date'') \<noteq> Inr d"
  shows "\<exists>fs w' new f. history_loop now ist xs w = (Inr fs, w')
           \<and> map_of (trips w') k = map_of (trips w) k
           \<and> format_trip k t = Inr f \<and> f \<in> set fs
           \<and> printed w' = printed w @ new
           \<and> ((\<exists>e. Invalid_date_format k (child t ''date'') e \<in> set new)
                \<longleftrightarrow> truthy (child t ''date''))"
  using assms
proof (induction xs arbitrary: w)
  case Nil
  then show ?case by simp
next
  case (Cons x xs)
  obtain k' t' where x: "x = (k', t')" by (cases x)
  from Cons.prems(1) x obtain kvs where t': "t' = JObj kvs" by (cases t') auto
  from Cons.prems(1) x t'
  have sh: "case map_of kvs ''status'' of None \<Rightarrow> True | Some st \<Rightarrow> is_dict st" by simp
  from Cons.prems(1) have shs: "\<forall>(k', t') \<in> set xs. is_dict t'
             \<and> (case map_of (children t') ''status'' of None \<Rightarrow> True | Some st \<Rightarrow> is_dict st)"
    by simp
  from Cons.prems(2) x have nk: "k' \<notin> fst ` set xs" and dist: "distinct (map fst xs)"
    by simp_all
  show ?case
  proof (cases "k' = k")
    case True
    have "(k, t) \<notin> set xs" using nk True by force
    with Cons.prems(3) x True have tt: "t = JObj kvs" using t' by simp
    from history_step_unparsable [OF sh, of now ist k w] Cons.prems(4) tt
    obtain f new1 where
      st: "history_step now ist (k, JObj kvs) w = (Inr f, w\<lparr>printed := printed w @ new1\<rparr>)"
      and f: "format_trip k t = Inr f"
      and ln1: "(\<exists>e. Invalid_date_format k (child t ''date'') e \<in> set new1)
                  \<longleftrightarrow> truthy (child t ''date'')" by blast
    let ?w1 = "w\<lparr>printed := printed w @ new1\<rparr>"
    from history_loop_shaped [OF shs, of now ist ?w1] obtain fs w' new2 where
      lp: "history_loop now ist xs ?w1 = (Inr fs, w')"
      and fr2: "\<forall>k. k \<notin> fst ` set xs \<longrightarrow> map_of (trips w') k = map_of (trips ?w1) k"
      and pr2: "printed w' = printed ?w1 @ new2"
      and ln2: "\<forall>l \<in> set new2. \<exists>k' d e. l = Invalid_date_format k' d e \<and> k' \<in> fst ` set xs"
      by blast
    have a: "history_loop now ist (x # xs) w = (Inr (f # fs), w')"
      using st lp x t' True by simp
    have b: "map_of (trips w') k = map_of (trips w) k" using fr2 nk True by simp
    have c: "printed w' = printed w @ (new1 @ new2)" using pr2 by simp
    have "\<not> (\<exists>e. Invalid_date_format k (child t ''date'') e \<in> set new2)"
      using ln2 nk True by fastforce
    then have d: "(\<exists>e. Invalid_date_format k (child t ''date'') e \<in> set (new1 @ new2))
                  \<longleftrightarrow> truthy (child t ''date'')"
      using ln1 by auto
    have e: "f \<in> set (f # fs)" by simp
    from a b f e c d show ?thesis by blast
  next
    case False
    with Cons.prems(3) x have mem: "(k, t) \<in> set xs" by simp
    from history_step_shaped [OF sh, of now ist k' w] obtain f1 w1 new1 where
      st: "history_step now ist (k', JObj kvs) w = (Inr f1, w1)"
      and fr1: "\<forall>k. k \<noteq> k' \<longrightarrow> map_of (trips w1) k = map_of (trips w) k"
      and pr1: "printed w1 = printed w @ new1"
      and ln1: "\<forall>l \<in> set new1. \<exists>d e. l = Invalid_date_format k' d e" by blast
    from Cons.IH [OF shs dist mem Cons.prems(4), of w1] obtain fs w' new2 f where
      lp: "history_loop now ist xs w1 = (Inr fs, w')"
      and fr2: "map_of (trips w') k = map_of (trips w1) k"
      and f: "format_trip k t = Inr f" "f \<in> set fs"
      and pr2: "printed w' = printed w1 @ new2"
      and ln2: "(\<exists>e. Invalid_date_format k (child t ''date'') e \<in> set new2)
                  \<longleftrightarrow> truthy (child t ''date'')" by blast
    have a: "history_loop now ist (x # xs) w = (Inr (f1 # fs), w')"
      using st lp x t' by simp
    have b: "map_of (trips w') k = map_of (trips w) k" using fr1 fr2 False by simp
    have c: "printed w' = printed w @ (new1 @ new2)" using pr1 pr2 by simp
    have "\<not> (\<exists>e. Invalid_date_format k (child t ''date'') e \<in> set new1)"
      using ln1 False by fastforce
    then have d: "(\<exists>e. Invalid_date_format k (child t ''date'') e \<in> set (new1 @ new2))
                  \<longleftrightarrow> truthy (child t ''date'')"
      using ln2 by auto
    have e: "f \<in> set (f1 # fs)" using f(2) by simp
    from a b f(1) e c d show ?thesis by blast
  qed
qed

text \<open>
  Trip \<open>''b5''\<close> has the empty date. The empty text is not a date of the format, yet
  the guard \<^verbatim>\<open>if date_str\<close> keeps it away from the parser and nothing is printed about
  it: the only line of the request is about trip \<open>''b6''\<close>.
\<close>

theorem empty_date_is_not_logged:
  "(''b5'', trip_of ''chitra@fill.in'' '''' [(''status'', JObj [(''status'', JStr ''pending'')])])
     \<in> set (trips ex_store)
   \<and> child (trip_of ''chitra@fill.in'' '''' [(''status'', JObj [(''status'', JStr ''pending'')])])
       ''customer_email'' = JStr ''chitra@fill.in''
   \<and> child (trip_of ''chitra@fill.in'' '''' [(''status'', JObj [(''status'', JStr ''pending'')])])
       ''date'' = JStr ''''
   \<and> strptime (JStr '''') = Inl ValueError
   \<and> printed (snd (get_trip_history ex_now ex_now_ist ''chitra@fill.in'' (Some ''Bearer tok'')
                     ex_store)) =
       [Invalid_date_format ''b6'' (JStr ''2025-06-20'') ValueError]"
  by (simp add: handler_defs date_defs example_defs)

text \<open>
  Claim C8, as amended. In a store whose keys are distinct and whose trips of the
  customer have a status record that is absent or a dict, let a trip of the customer
  have a date that is absent, empty or not of the format \<^verbatim>\<open>DD/MM/YYYY\<close>. Then the
  request succeeds, the trip is in the store afterwards as it was, the answer holds the
  record made from the stored trip (with its stored status, \<^verbatim>\<open>pending\<close> when there is
  none), and a line about the trip's date is printed exactly when the date is truthy,
  that is, present and not empty.
\<close>

theorem unparsable_date_is_not_expired:
  assumes auth: "authorized authorization"
    and dist: "distinct (map fst (trips w))"
    and shape: "\<forall>(k', t') \<in> set (trips w). child t' ''customer_email'' = JStr email \<longrightarrow>
                  (case map_of (children t') ''status'' of None \<Rightarrow> True | Some st \<Rightarrow> is_dict st)"
    and mem: "(k, t) \<in> set (trips w)"
    and match: "child t ''customer_email'' = JStr email"
    and nopar: "\<forall>d. strptime (child t ''date'') \<noteq> Inr d"
  shows "\<exists>fs w' new f. get_trip_history now now_ist email authorization w = (Inr fs, w')
           \<and> map_of (trips w') k = Some t
           \<and> format_trip k t = Inr f \<and> f \<in> set fs
           \<and> status_get t ''status'' (JStr ''pending'') = Inr (sv_status (ft_status f))
           \<and> printed w' = printed w @ new
           \<and> ((\<exists>e. Invalid_date_format k (child t ''date'') e \<in> set new)
                \<longleftrightarrow> truthy (child t ''date''))"
proof -
  let ?xs = "sort_key fst (filter (\<lambda>(k, t). child t ''customer_email'' = JStr email) (trips w))"
  let ?w1 = "w\<lparr>calls := calls w @ [Query_call [''trips''] ''customer_email'' email]\<rparr>"
  have dict: "is_dict t'" if "child t' ''customer_email'' = JStr email" for t'
    using that by (cases t') (simp_all add: child_def)
  have sh: "\<forall>(k', t') \<in> set ?xs. is_dict t'
             \<and> (case map_of (children t') ''status'' of None \<Rightarrow> True | Some st \<Rightarrow> is_dict st)"
    using shape dict by auto
  have d: "distinct (map fst ?xs)" using dist by (rule distinct_keys_sorted_matches)
  have m: "(k, t) \<in> set ?xs" using mem match by simp
  then have ne: "?xs \<noteq> []" by (metis length_pos_if_in_set length_greater_0_conv)
  from history_loop_unparsable [OF sh d m nopar, of now now_ist ?w1] obtain fs w' new f where
    lp: "history_loop now now_ist ?xs ?w1 = (Inr fs, w')"
    and fr: "map_of (trips w') k = map_of (trips ?w1) k"
    and f: "format_trip k t = Inr f" "f \<in> set fs"
    and pr: "printed w' = printed ?w1 @ new"
    and ln: "(\<exists>e. Invalid_date_format k (child t ''date'') e \<in> set new)
               \<longleftrightarrow> truthy (child t ''date'')" by blast
  have a: "get_trip_history now now_ist email authorization w = (Inr fs, w')"
    using auth ne lp
    by (simp add: get_trip_history_def get_trip_history_body_def query_equal_to_def)
  have b: "map_of (trips w') k = Some t" using fr dist mem by simp
  from dict [OF match] obtain kvs where t: "t = JObj kvs" by (cases t) auto
  from shape mem have "child t ''customer_email'' = JStr email \<longrightarrow>
      (case map_of (children t) ''status'' of None \<Rightarrow> True | Some st \<Rightarrow> is_dict st)"
    by auto
  with match t have st: "case map_of kvs ''status'' of None \<Rightarrow> True | Some st \<Rightarrow> is_dict st"
    by simp
  from format_trip_shaped [OF st, of k] f(1) t
  have c: "status_get t ''status'' (JStr ''pending'') = Inr (sv_status (ft_status f))" by auto
  have p: "printed w' = printed w @ new" using pr by simp
  from a b f c p ln show ?thesis by blast
qed

lemma ex_shape:
  "\<forall>(k', t') \<in> set (trips ex_store). child t' ''customer_email'' = JStr ''chitra@fill.in'' \<longrightarrow>
     (case map_of (children t') ''status'' of None \<Rightarrow> True | Some st \<Rightarrow> is_dict st)"
  by (simp add: example_defs child_def)

theorem unparsable_date_is_not_expired_witness:
  "authorized (Some ''Bearer tok'')
   \<and> (''b6'', trip_of ''chitra@fill.in'' ''2025-06-20''
                 [(''status'', JObj [(''status'', JStr ''pending'')])]) \<in> set (trips ex_store)
   \<and> strptime (JStr ''2025-06-20'') = Inl ValueError
   \<and> (\<exists>fs w' new f.
         get_trip_history ex_now ex_now_ist ''chitra@fill.in'' (Some ''Bearer tok'') ex_store =
           (Inr fs, w')
         \<and> map_of (trips w') ''b6'' =
             Some (trip_of ''chitra@fill.in'' ''2025-06-20''
                     [(''status'', JObj [(''status'', JStr ''pending'')])])
         \<and> f \<in> set fs \<and> ft_booking_id f = ''b6'' \<and> sv_status (ft_status f) = JStr ''pending''
         \<and> printed w' = printed ex_store @ new
         \<and> (\<exists>e. Invalid_date_format ''b6'' (JStr ''2025-06-20'') e \<in> set new))"
proof -
  let ?t = "trip_of ''chitra@fill.in'' ''2025-06-20''
              [(''status'', JObj [(''status'', JStr ''pending'')])]"
  have auth: "authorized (Some ''Bearer tok'')" by (simp add: authorized_def startswith_def)
  have mem: "(''b6'', ?t) \<in> set (trips ex_store)" by (simp add: example_defs)
  have match: "child ?t ''customer_email'' = JStr ''chitra@fill.in''"
    by (simp add: trip_of_def child_def)
  have date: "child ?t ''date'' = JStr ''2025-06-20''" by (simp add: trip_of_def child_def)
  have par: "strptime (JStr ''2025-06-20'') = Inl ValueError" by (simp add: date_defs)
  have nopar: "\<forall>d. strptime (child ?t ''date'') \<noteq> Inr d" unfolding date par by simp
  from unparsable_date_is_not_expired [OF auth ex_distinct ex_shape mem match nopar,
      of ex_now ex_now_ist]
  obtain fs w' new f where
    r: "get_trip_history ex_now ex_now_ist ''chitra@fill.in'' (Some ''Bearer tok'') ex_store =
          (Inr fs, w')"
      "map_of (trips w') ''b6'' = Some ?t"
      "format_trip ''b6'' ?t = Inr f" "f \<in> set fs"
      "printed w' = printed ex_store @ new"
      "(\<exists>e. Invalid_date_format ''b6'' (child ?t ''date'') e \<in> set new)
         \<longleftrightarrow> truthy (child ?t ''date'')" by blast
  from r(3) have "ft_booking_id f = ''b6''" "sv_status (ft_status f) = JStr ''pending''"
    by (auto simp: format_trip_def trip_of_def)
  moreover from r(6) have "\<exists>e. Invalid_date_format ''b6'' (JStr ''2025-06-20'') e \<in> set new"
    by (simp add: date)
  ultimately show ?thesis using auth mem par r(1,2,4,5) by blast
qed

section \<open>Trips without a stored status\<close>





end
